theory Spec2Isabelle
  imports Main "HOL-Library.Word"
begin

section \<open>Data model of \<^verbatim>\<open>backend/main.py\<close>\<close>

text \<open>
  The backend keeps three tables in one SQLite file and the uploaded binaries in the
  directory \<^verbatim>\<open>storage/\<close>. A table is the list of its rows in rowid order, the
  order in which an unordered \<^verbatim>\<open>SELECT\<close> over the whole table yields them.
  Integers are Python's unbounded integers. SQLite stores signed 64-bit integers, and
  its driver raises \<^verbatim>\<open>OverflowError\<close> when a query is to bind an integer outside
  that range: the ids, offsets and limits that requests supply are checked against it.
  The ids of stored rows are not bounded in the model: a new row takes the largest id
  plus one.
\<close>

type_synonym byte = "8 word"

text \<open>\<^verbatim>\<open>class User(Base)\<close>: id (primary key), name, email (unique), password.\<close>

record User =
  u_id :: int
  u_name :: string
  u_email :: string
  u_password :: string

text \<open>\<^verbatim>\<open>class PDF(Base)\<close>: id (primary key), user_id, fileName, storage_path.\<close>

record PDF =
  p_id :: int
  p_user_id :: int
  p_fileName :: string
  p_storage_path :: string

text \<open>\<^verbatim>\<open>class Summary(Base)\<close>: id, pdf_id, summarize_text, created_at.\<close>

record Summary =
  s_id :: int
  s_pdf_id :: int
  s_summarize_text :: string
  s_created_at :: int

text \<open>
  The persisted state: the three tables, whether the directory \<^verbatim>\<open>storage/\<close> exists,
  and the files on disk as a map from path to content.
\<close>

record backend =
  users :: "User list"
  pdfs :: "PDF list"
  summaries :: "Summary list"
  storage_dir :: bool
  files :: "string \<rightharpoonup> byte list"

subsection \<open>Data contracts\<close>

record UserCreate =
  uc_name :: string
  uc_email :: string
  uc_password :: string

record UserResponse =
  ur_id :: int
  ur_name :: string
  ur_email :: string

record UserUpdate =
  uu_name :: "string option"
  uu_email :: "string option"
  uu_password :: "string option"

record PDFResponse =
  pr_id :: int
  pr_fileName :: string

record SummaryRequest =
  sq_pdf_id :: int
  sq_storage_id :: string

record SummaryResponse =
  sr_pdf_id :: int
  sr_summary :: string

text \<open>The multipart upload: the client's filename and the binary stream.\<close>

record UploadFile =
  uf_filename :: string
  uf_file :: "byte list"

text \<open>\<^verbatim>\<open>FileResponse(path=..., media_type=..., filename=...)\<close>.\<close>

record FileResponse =
  fr_path :: string
  fr_media_type :: string
  fr_filename :: string

text \<open>What the client receives from a download.\<close>

record download =
  d_content :: "byte list"
  d_media_type :: string
  d_filename :: string

subsection \<open>Errors\<close>

text \<open>
  \<open>HTTPException\<close> carries the status code and the detail string of the source. The
  other constructors are exceptions no handler catches; the framework answers them with
  status 500.
\<close>

datatype error =
    HTTPException int string
  | IntegrityError
  | FileNotFoundError string
  | AttributeError string
  | RuntimeError string
  | ResponseValidationError
  | OverflowError

fun status_code :: "error \<Rightarrow> int" where
  "status_code (HTTPException c d) = c"
| "status_code e = 500"

section \<open>Persistence layer\<close>

text \<open>
  SQLite gives a new row of a table with an integer primary key the rowid one above the
  largest in use, and 1 in an empty table.
\<close>

definition next_rowid :: "int list \<Rightarrow> int" where
  "next_rowid ks = (case ks of [] \<Rightarrow> 1 | k # ks' \<Rightarrow> fold max ks' k + 1)"

text \<open>
  \<^verbatim>\<open>db.add(db_user); db.commit(); db.refresh(db_user)\<close>: the insert violates the
  unique constraint on \<^verbatim>\<open>email\<close> when a row holds that email already; then
  nothing is written and \<^verbatim>\<open>IntegrityError\<close> is raised.
\<close>

definition insert_user :: "string \<Rightarrow> string \<Rightarrow> string \<Rightarrow> backend \<Rightarrow> (error + User) \<times> backend" where
  "insert_user name email password s =
     (if email \<in> set (map u_email (users s)) then (Inl IntegrityError, s)
      else
        let db_user = \<lparr>u_id = next_rowid (map u_id (users s)), u_name = name,
                         u_email = email, u_password = password\<rparr>
        in (Inr db_user, s\<lparr>users := users s @ [db_user]\<rparr>))"

text \<open>
  \<^verbatim>\<open>db.commit(); db.refresh(db_user)\<close> after the attributes of a loaded row were
  assigned: the row with that id is rewritten, unless another row holds the new email.
\<close>

definition commit_user :: "User \<Rightarrow> backend \<Rightarrow> (error + User) \<times> backend" where
  "commit_user db_user s =
     (if u_email db_user \<in> set (map u_email (filter (\<lambda>r. u_id r \<noteq> u_id db_user) (users s)))
      then (Inl IntegrityError, s)
      else (Inr db_user,
            s\<lparr>users := map (\<lambda>r. if u_id r = u_id db_user then db_user else r) (users s)\<rparr>))"

text \<open>\<^verbatim>\<open>db.add(pdf); db.commit(); db.refresh(pdf)\<close>: the table has no constraint to violate.\<close>

definition insert_pdf :: "string \<Rightarrow> string \<Rightarrow> int \<Rightarrow> backend \<Rightarrow> PDF \<times> backend" where
  "insert_pdf fileName storage_path user_id s =
     (let pdf = \<lparr>p_id = next_rowid (map p_id (pdfs s)), p_user_id = user_id,
                  p_fileName = fileName, p_storage_path = storage_path\<rparr>
      in (pdf, s\<lparr>pdfs := pdfs s @ [pdf]\<rparr>))"

text \<open>The integers SQLite stores and its driver binds: the signed 64-bit range.\<close>

definition in_int64 :: "int \<Rightarrow> bool" where
  "in_int64 k \<longleftrightarrow> - 9223372036854775808 \<le> k \<and> k \<le> 9223372036854775807"

text \<open>
  \<^verbatim>\<open>.filter(T.id == k).first()\<close>: the first row with that id, if the table holds
  one. The driver raises when it is to bind an id outside the 64-bit range. No row of an
  SQLite table has such an id, so there the query raises exactly when the id is out of
  range, and no row has it. The model, which does not bound the ids of stored rows,
  finds a row that is stored and raises for an out-of-range id that no row has.
\<close>

definition first_by_id :: "('a \<Rightarrow> int) \<Rightarrow> int \<Rightarrow> 'a list \<Rightarrow> error + 'a option" where
  "first_by_id key k rows =
     (case find (\<lambda>r. key r = k) rows of
        Some r \<Rightarrow> Inr (Some r)
      | None \<Rightarrow> if in_int64 k then Inr None else Inl OverflowError)"

text \<open>
  \<^verbatim>\<open>.offset(skip).limit(limit).all()\<close> on SQLite: the driver raises when the offset
  or the limit is outside the 64-bit range; a negative offset counts as 0 and a negative
  limit as no limit.
\<close>

definition offset_limit :: "int \<Rightarrow> int \<Rightarrow> 'a list \<Rightarrow> error + 'a list" where
  "offset_limit skip limit rows =
     (if \<not> in_int64 skip \<or> \<not> in_int64 limit then Inl OverflowError
      else
        let rest = drop (nat skip) rows
        in Inr (if limit < 0 then rest else take (nat limit) rest))"

section \<open>Route handlers\<close>

text \<open>
  A handler takes the state and returns its result, or the exception it raises, with
  the state it leaves.
\<close>

definition create_user :: "UserCreate \<Rightarrow> backend \<Rightarrow> (error + User) \<times> backend" where
  "create_user user s =
     (case insert_user (uc_name user) (uc_email user) (uc_password user) s of
        (Inl e, s') \<Rightarrow>
          if e = IntegrityError then (Inl (HTTPException 400 ''Email already registered''), s')
          else (Inl e, s')
      | (Inr db_user, s') \<Rightarrow> (Inr db_user, s'))"

text \<open>A query parameter left out of the request is \<open>None\<close> and takes the default.\<close>

definition read_users :: "int option \<Rightarrow> int option \<Rightarrow> backend \<Rightarrow> (error + User list) \<times> backend" where
  "read_users skip limit s =
     (let skip' = (case skip of None \<Rightarrow> 0 | Some k \<Rightarrow> k);
          limit' = (case limit of None \<Rightarrow> 10 | Some n \<Rightarrow> n)
      in (offset_limit skip' limit' (users s), s))"

definition read_user :: "int \<Rightarrow> backend \<Rightarrow> (error + User) \<times> backend" where
  "read_user user_id s =
     (case first_by_id u_id user_id (users s) of
        Inl e \<Rightarrow> (Inl e, s)
      | Inr None \<Rightarrow> (Inl (HTTPException 404 ''User not Found''), s)
      | Inr (Some user) \<Rightarrow> (Inr user, s))"

definition update_user :: "int \<Rightarrow> UserUpdate \<Rightarrow> backend \<Rightarrow> (error + User) \<times> backend" where
  "update_user user_id user s =
     (case first_by_id u_id user_id (users s) of
        Inl e \<Rightarrow> (Inl e, s)
      | Inr None \<Rightarrow> (Inl (HTTPException 404 ''User not Found''), s)
      | Inr (Some db_user) \<Rightarrow>
          commit_user
            (db_user\<lparr>
               u_name := (case uu_name user of Some n \<Rightarrow> n | None \<Rightarrow> u_name db_user),
               u_email := (case uu_email user of Some e \<Rightarrow> e | None \<Rightarrow> u_email db_user),
               u_password := (case uu_password user of Some p \<Rightarrow> p | None \<Rightarrow> u_password db_user)\<rparr>)
            s)"

text \<open>
  The deleted object is detached from the session with its attributes as loaded, so the
  handler returns the row as it was.
\<close>

definition delete_user :: "int \<Rightarrow> UserUpdate \<Rightarrow> backend \<Rightarrow> (error + User) \<times> backend" where
  "delete_user user_id user s =
     (case first_by_id u_id user_id (users s) of
        Inl e \<Rightarrow> (Inl e, s)
      | Inr None \<Rightarrow> (Inl (HTTPException 404 ''User not Found''), s)
      | Inr (Some db_user) \<Rightarrow>
          (Inr db_user, s\<lparr>users := filter (\<lambda>r. u_id r \<noteq> u_id db_user) (users s)\<rparr>))"

text \<open>
  \<open>file_id\<close> is the string of the \<^verbatim>\<open>uuid.uuid4()\<close> drawn by this call.
  \<^verbatim>\<open>open(path, "wb")\<close> raises when the directory is missing and replaces a file
  already at the path.
\<close>

definition create_pdf :: "string \<Rightarrow> UploadFile \<Rightarrow> backend \<Rightarrow> (error + PDF) \<times> backend" where
  "create_pdf file_id file s =
     (let path = ''storage/'' @ file_id @ ''.pdf''
      in if \<not> storage_dir s then (Inl (FileNotFoundError path), s)
         else
           let s1 = s\<lparr>files := (files s)(path \<mapsto> uf_file file)\<rparr>;
               (pdf, s2) = insert_pdf (uf_filename file) path 1 s1
           in (Inr pdf, s2))"

definition read_pdfs :: "int option \<Rightarrow> int option \<Rightarrow> backend \<Rightarrow> (error + PDF list) \<times> backend" where
  "read_pdfs skip limit s =
     (let skip' = (case skip of None \<Rightarrow> 0 | Some k \<Rightarrow> k);
          limit' = (case limit of None \<Rightarrow> 10 | Some n \<Rightarrow> n)
      in (offset_limit skip' limit' (pdfs s), s))"

definition read_pdf :: "int \<Rightarrow> backend \<Rightarrow> (error + PDF) \<times> backend" where
  "read_pdf id' s =
     (case first_by_id p_id id' (pdfs s) of
        Inl e \<Rightarrow> (Inl e, s)
      | Inr None \<Rightarrow> (Inl (HTTPException 404 ''PDF not Found''), s)
      | Inr (Some pdf) \<Rightarrow> (Inr pdf, s))"

definition get_pdf :: "int \<Rightarrow> backend \<Rightarrow> (error + FileResponse) \<times> backend" where
  "get_pdf id' s =
     (case first_by_id p_id id' (pdfs s) of
        Inl e \<Rightarrow> (Inl e, s)
      | Inr None \<Rightarrow> (Inl (HTTPException 404 ''PDF not Found''), s)
      | Inr (Some pdf) \<Rightarrow>
          (Inr \<lparr>fr_path = p_storage_path pdf, fr_media_type = ''application/pdf'',
                fr_filename = p_fileName pdf\<rparr>, s))"

text \<open>
  \<^verbatim>\<open>return summary_request.summary\<close>: \<^verbatim>\<open>SummaryRequest\<close> has no such
  field, so the attribute access raises.
\<close>

definition create_summary :: "SummaryRequest \<Rightarrow> backend \<Rightarrow> (error + SummaryResponse) \<times> backend" where
  "create_summary summary_request s = (Inl (AttributeError ''summary''), s)"

text \<open>A bare \<^verbatim>\<open>return\<close>: the handler's value is \<^verbatim>\<open>None\<close>.\<close>

definition get_summary :: "int \<Rightarrow> backend \<Rightarrow> (error + SummaryResponse option) \<times> backend" where
  "get_summary pdf_id s = (Inr None, s)"

section \<open>Responses\<close>

text \<open>
  \<^verbatim>\<open>response_model=UserResponse\<close> with \<^verbatim>\<open>from_attributes=True\<close>: the
  response is built from the attributes the contract names.
\<close>

definition user_response :: "User \<Rightarrow> UserResponse" where
  "user_response r = \<lparr>ur_id = u_id r, ur_name = u_name r, ur_email = u_email r\<rparr>"

definition pdf_response :: "PDF \<Rightarrow> PDFResponse" where
  "pdf_response r = \<lparr>pr_id = p_id r, pr_fileName = p_fileName r\<rparr>"

text \<open>\<^verbatim>\<open>None\<close> does not validate against \<^verbatim>\<open>SummaryResponse\<close>.\<close>

definition summary_response :: "SummaryResponse option \<Rightarrow> error + SummaryResponse" where
  "summary_response v = (case v of None \<Rightarrow> Inl ResponseValidationError | Some r \<Rightarrow> Inr r)"

text \<open>
  Sending a \<^verbatim>\<open>FileResponse\<close> reads the file at its path; a missing file is an
  error of the server.
\<close>

definition send_file :: "FileResponse \<Rightarrow> backend \<Rightarrow> error + download" where
  "send_file fr s =
     (case files s (fr_path fr) of
        None \<Rightarrow> Inl (RuntimeError (fr_path fr))
      | Some content \<Rightarrow>
          Inr \<lparr>d_content = content, d_media_type = fr_media_type fr,
               d_filename = fr_filename fr\<rparr>)"

definition respond :: "('a \<Rightarrow> error + 'b) \<Rightarrow> (error + 'a) \<times> backend \<Rightarrow> (error + 'b) \<times> backend" where
  "respond f r = (case r of (Inl e, s) \<Rightarrow> (Inl e, s) | (Inr v, s) \<Rightarrow> (f v, s))"


definition get_users :: "int option \<Rightarrow> int option \<Rightarrow> backend \<Rightarrow> (error + UserResponse list) \<times> backend" where
  "get_users skip limit s = respond (\<lambda>v. Inr (map user_response v)) (read_users skip limit s)"

definition get_user :: "int \<Rightarrow> backend \<Rightarrow> (error + UserResponse) \<times> backend" where
  "get_user user_id s = respond (\<lambda>v. Inr (user_response v)) (read_user user_id s)"


definition delete_user_route :: "int \<Rightarrow> UserUpdate \<Rightarrow> backend \<Rightarrow> (error + UserResponse) \<times> backend" where
  "delete_user_route user_id user s =
     respond (\<lambda>v. Inr (user_response v)) (delete_user user_id user s)"

definition post_pdf_upload :: "string \<Rightarrow> UploadFile \<Rightarrow> backend \<Rightarrow> (error + PDFResponse) \<times> backend" where
  "post_pdf_upload file_id file s = respond (\<lambda>v. Inr (pdf_response v)) (create_pdf file_id file s)"

definition get_pdfs :: "int option \<Rightarrow> int option \<Rightarrow> backend \<Rightarrow> (error + PDFResponse list) \<times> backend" where
  "get_pdfs skip limit s = respond (\<lambda>v. Inr (map pdf_response v)) (read_pdfs skip limit s)"

definition get_pdf_metadata :: "int \<Rightarrow> backend \<Rightarrow> (error + PDFResponse) \<times> backend" where
  "get_pdf_metadata id' s = respond (\<lambda>v. Inr (pdf_response v)) (read_pdf id' s)"

definition get_pdf_download :: "int \<Rightarrow> backend \<Rightarrow> (error + download) \<times> backend" where
  "get_pdf_download id' s = (case get_pdf id' s of (r, s') \<Rightarrow> respond (\<lambda>fr. send_file fr s') (r, s'))"

definition post_summary :: "SummaryRequest \<Rightarrow> backend \<Rightarrow> (error + SummaryResponse) \<times> backend" where
  "post_summary summary_request s = respond Inr (create_summary summary_request s)"

definition get_summary_route :: "int \<Rightarrow> backend \<Rightarrow> (error + SummaryResponse) \<times> backend" where
  "get_summary_route pdf_id s = respond summary_response (get_summary pdf_id s)"

section \<open>Constraints of the schema\<close>

text \<open>
  The primary keys and the unique index on \<^verbatim>\<open>users.email\<close>: what the storage
  engine guarantees of every state it holds.
\<close>

definition constraints :: "backend \<Rightarrow> bool" where
  "constraints s \<longleftrightarrow>
     distinct (map u_id (users s)) \<and> distinct (map u_email (users s)) \<and>
     distinct (map p_id (pdfs s))"

text \<open>
  Two states whose user tables agree row by row on id, name and email: they may differ
  in the passwords (and this relation asks nothing of the other tables).
\<close>

definition same_except_passwords :: "backend \<Rightarrow> backend \<Rightarrow> bool" where
  "same_except_passwords s t \<longleftrightarrow>
     list_all2 (\<lambda>a b. u_id a = u_id b \<and> u_name a = u_name b \<and> u_email a = u_email b)
       (users s) (users t)"

section \<open>A sample state\<close>

text \<open>Two users and one uploaded document, for evaluating the handlers.\<close>

abbreviation ex_alice :: User where
  "ex_alice \<equiv> \<lparr>u_id = 1, u_name = ''A'', u_email = ''a@x.com'', u_password = ''p''\<rparr>"

abbreviation ex_bob :: User where
  "ex_bob \<equiv> \<lparr>u_id = 2, u_name = ''B'', u_email = ''b@x.com'', u_password = ''q''\<rparr>"

abbreviation ex_pdf :: PDF where
  "ex_pdf \<equiv> \<lparr>p_id = 1, p_user_id = 1, p_fileName = ''paper.pdf'',
               p_storage_path = ''storage/f1.pdf''\<rparr>"

abbreviation ex_store :: backend where
  "ex_store \<equiv> \<lparr>users = [ex_alice, ex_bob], pdfs = [ex_pdf], summaries = [],
                 storage_dir = True, files = [''storage/f1.pdf'' \<mapsto> [0x25, 0x50]]\<rparr>"

abbreviation ex_empty :: backend where
  "ex_empty \<equiv> \<lparr>users = [], pdfs = [], summaries = [], storage_dir = True, files = Map.empty\<rparr>"

text \<open>The sample state with other passwords.\<close>

abbreviation ex_store_other_passwords :: backend where
  "ex_store_other_passwords \<equiv>
     \<lparr>users = [ex_alice\<lparr>u_password := ''x1''\<rparr>, ex_bob\<lparr>u_password := ''x2''\<rparr>], pdfs = [ex_pdf],
      summaries = [], storage_dir = True, files = [''storage/f1.pdf'' \<mapsto> [0x25, 0x50]]\<rparr>"

section \<open>Facts about the persistence layer\<close>

lemma next_rowid_greater: "k \<in> set ks \<Longrightarrow> k < next_rowid ks"
proof (cases ks)
  case Nil
  assume "k \<in> set ks"
  with Nil show ?thesis by simp
next
  case (Cons a as)
  assume k: "k \<in> set ks"
  have "fold max as a = Max (set (a # as))"
    by (rule Max.set_eq_fold [symmetric])
  moreover have "k \<le> Max (set (a # as))"
    using k Cons by (intro Max_ge) auto
  ultimately show ?thesis
    using Cons by (simp add: next_rowid_def)
qed

lemma next_rowid_fresh: "next_rowid ks \<notin> set ks"
  using next_rowid_greater [of "next_rowid ks" ks] by auto

lemma find_absent: "(\<forall>r \<in> set rows. f r \<noteq> k) \<Longrightarrow> find (\<lambda>r. f r = k) rows = None"
  by (simp add: find_None_iff)

lemma find_key:
  "distinct (map f rows) \<Longrightarrow> x \<in> set rows \<Longrightarrow> find (\<lambda>r. f r = f x) rows = Some x"
  by (induction rows) (auto simp: image_iff)

lemma find_snoc_fresh:
  "(\<forall>r \<in> set rows. f r \<noteq> f x) \<Longrightarrow> find (\<lambda>r. f r = f x) (rows @ [x]) = Some x"
  by (induction rows) auto

lemma first_by_id_absent:
  "(\<forall>r \<in> set rows. f r \<noteq> k) \<Longrightarrow>
     first_by_id f k rows = (if in_int64 k then Inr None else Inl OverflowError)"
  by (simp add: first_by_id_def find_absent)

lemma first_by_id_key:
  "distinct (map f rows) \<Longrightarrow> x \<in> set rows \<Longrightarrow> first_by_id f (f x) rows = Inr (Some x)"
  by (simp add: first_by_id_def find_key)

lemma first_by_id_snoc_fresh:
  "(\<forall>r \<in> set rows. f r \<noteq> f x) \<Longrightarrow> first_by_id f (f x) (rows @ [x]) = Inr (Some x)"
  by (simp add: first_by_id_def find_snoc_fresh)

lemma filter_key_remove1:
  "distinct (map f rows) \<Longrightarrow> x \<in> set rows \<Longrightarrow>
     filter (\<lambda>r. f r \<noteq> f x) rows = remove1 x rows"
proof (induction rows)
  case Nil
  then show ?case by simp
next
  case (Cons a rows)
  show ?case
  proof (cases "a = x")
    case True
    with Cons.prems have "\<forall>r \<in> set rows. f r \<noteq> f x" by (auto simp: image_iff)
    then have "filter (\<lambda>r. f r \<noteq> f x) rows = rows" by (simp add: filter_id_conv)
    with True show ?thesis by simp
  next
    case False
    with Cons.prems have "x \<in> set rows" "f a \<noteq> f x" "distinct (map f rows)"
      by (auto simp: image_iff)
    with Cons.IH False show ?thesis by simp
  qed
qed

lemma offset_limit_nonneg:
  "in_int64 skip \<Longrightarrow> in_int64 limit \<Longrightarrow> 0 \<le> limit \<Longrightarrow>
     offset_limit skip limit rows = Inr (take (nat limit) (drop (nat skip) rows))"
  by (simp add: offset_limit_def)

lemma offset_limit_negative:
  "in_int64 skip \<Longrightarrow> in_int64 limit \<Longrightarrow> limit < 0 \<Longrightarrow>
     offset_limit skip limit rows = Inr (drop (nat skip) rows)"
  by (simp add: offset_limit_def)

lemma offset_limit_covers:
  assumes "in_int64 skip" and "in_int64 limit"
    and "0 \<le> skip" and "int (length rows) \<le> skip + limit"
  shows "offset_limit skip limit rows = Inr (drop (nat skip) rows)"
proof (cases "limit < 0")
  case True
  with assms show ?thesis by (simp add: offset_limit_negative)
next
  case False
  with assms have "length (drop (nat skip) rows) \<le> nat limit" by simp
  with False assms show ?thesis by (simp add: offset_limit_def)
qed

lemma offset_limit_Nil:
  "in_int64 skip \<Longrightarrow> in_int64 limit \<Longrightarrow> offset_limit skip limit [] = Inr []"
  by (simp add: offset_limit_def)

lemma offset_limit_out_of_range:
  "\<not> in_int64 skip \<or> \<not> in_int64 limit \<Longrightarrow> offset_limit skip limit rows = Inl OverflowError"
  by (auto simp: offset_limit_def)

lemma map_offset_limit:
  "map_sum id (map f) (offset_limit skip limit rows) = offset_limit skip limit (map f rows)"
  by (simp add: offset_limit_def Let_def take_map drop_map)

lemma get_users_eq:
  "get_users skip limit s =
     (map_sum id (map user_response) (offset_limit (case skip of None \<Rightarrow> 0 | Some k \<Rightarrow> k)
        (case limit of None \<Rightarrow> 10 | Some n \<Rightarrow> n) (users s)), s)"
  by (simp add: get_users_def read_users_def respond_def split: sum.splits)

lemma get_pdfs_eq:
  "get_pdfs skip limit s =
     (map_sum id (map pdf_response) (offset_limit (case skip of None \<Rightarrow> 0 | Some k \<Rightarrow> k)
        (case limit of None \<Rightarrow> 10 | Some n \<Rightarrow> n) (pdfs s)), s)"
  by (simp add: get_pdfs_def read_pdfs_def respond_def split: sum.splits)




text \<open>What the user routes answer depends on the rows only through their responses.\<close>

lemma agreeing_rows_responses:
  "list_all2 (\<lambda>a b. u_id a = u_id b \<and> u_name a = u_name b \<and> u_email a = u_email b) xs ys
     \<Longrightarrow> map user_response xs = map user_response ys"
  by (induction xs ys rule: list_all2_induct) (simp_all add: user_response_def)

lemma same_except_passwords_responses:
  "same_except_passwords s t \<Longrightarrow> map user_response (users s) = map user_response (users t)"
  unfolding same_except_passwords_def by (rule agreeing_rows_responses)

lemma find_user_response:
  "map user_response xs = map user_response ys \<Longrightarrow>
     map_option user_response (find (\<lambda>r. u_id r = k) xs)
       = map_option user_response (find (\<lambda>r. u_id r = k) ys)"
proof (induction xs arbitrary: ys)
  case Nil
  then show ?case by simp
next
  case (Cons x xs)
  then obtain y ys' where ys: "ys = y # ys'" by (cases ys) auto
  with Cons.prems have h: "user_response x = user_response y"
    and t: "map user_response xs = map user_response ys'"
    by simp_all
  from h have "u_id x = u_id y" by (simp add: user_response_def)
  with Cons.IH [OF t] h ys show ?case by simp
qed

lemma get_user_eq:
  "fst (get_user k s) =
     (case map_option user_response (find (\<lambda>r. u_id r = k) (users s)) of
        None \<Rightarrow> if in_int64 k then Inl (HTTPException 404 ''User not Found'') else Inl OverflowError
      | Some v \<Rightarrow> Inr v)"
  by (simp add: get_user_def read_user_def first_by_id_def respond_def split: option.splits)

lemma delete_user_route_eq:
  "fst (delete_user_route k b s) =
     (case map_option user_response (find (\<lambda>r. u_id r = k) (users s)) of
        None \<Rightarrow> if in_int64 k then Inl (HTTPException 404 ''User not Found'') else Inl OverflowError
      | Some v \<Rightarrow> Inr v)"
  by (simp add: delete_user_route_def delete_user_def first_by_id_def respond_def
      split: option.splits)

text \<open>The handlers that write keep the constraints of the schema.\<close>

lemma constraints_create_user:
  "constraints s \<Longrightarrow> constraints (snd (create_user user s))"
  using next_rowid_fresh [of "map u_id (users s)"]
  by (auto simp: constraints_def create_user_def insert_user_def Let_def)

lemma constraints_delete_user:
  "constraints s \<Longrightarrow> constraints (snd (delete_user user_id user s))"
  by (auto simp: constraints_def delete_user_def first_by_id_def distinct_map_filter
      split: option.splits)

lemma constraints_create_pdf:
  "constraints s \<Longrightarrow> constraints (snd (create_pdf file_id file s))"
  using next_rowid_fresh [of "map p_id (pdfs s)"]
  by (auto simp: constraints_def create_pdf_def insert_pdf_def Let_def)

lemma rewrite_row_ids:
  "map u_id (map (\<lambda>r. if u_id r = u_id new then new else r) rows) = map u_id rows"
  by (induction rows) auto

lemma rewrite_row_emails:
  assumes "distinct (map u_id rows)" and "distinct (map u_email rows)"
    and "\<forall>r \<in> set rows. u_id r \<noteq> u_id new \<longrightarrow> u_email r \<noteq> u_email new"
  shows "distinct (map u_email (map (\<lambda>r. if u_id r = u_id new then new else r) rows))"
  using assms
proof (induction rows)
  case Nil
  then show ?case by simp
next
  case (Cons a rows)
  let ?f = "\<lambda>r. if u_id r = u_id new then new else r"
  from Cons.prems have tail: "distinct (map u_email (map ?f rows))"
    by (intro Cons.IH) auto
  show ?case
  proof (cases "u_id a = u_id new")
    case True
    with Cons.prems have "\<forall>r \<in> set rows. u_id r \<noteq> u_id new"
      by (auto simp: image_iff)
    then have same: "map ?f rows = rows"
      by (induction rows) auto
    from True Cons.prems have "\<forall>r \<in> set rows. u_email r \<noteq> u_email new"
      by (auto simp: image_iff)
    with True same Cons.prems show ?thesis
      by (auto simp: image_iff)
  next
    case False
    have "u_email a \<noteq> u_email (?f r)" if "r \<in> set rows" for r
      using that False Cons.prems by (auto simp: image_iff)
    with False tail show ?thesis
      by (auto simp: image_iff)
  qed
qed

lemma constraints_update_user:
  assumes "constraints s"
  shows "constraints (snd (update_user user_id user s))"
proof (cases "find (\<lambda>r. u_id r = user_id) (users s)")
  case None
  with assms show ?thesis by (simp add: update_user_def first_by_id_def)
next
  case (Some old)
  obtain new where new: "update_user user_id user s = commit_user new s"
    using Some by (simp add: update_user_def first_by_id_def)
  show ?thesis
  proof (cases "u_email new \<in> set (map u_email (filter (\<lambda>r. u_id r \<noteq> u_id new) (users s)))")
    case True
    with assms new show ?thesis by (simp add: commit_user_def)
  next
    case False
    then have "\<forall>r \<in> set (users s). u_id r \<noteq> u_id new \<longrightarrow> u_email r \<noteq> u_email new"
      by (auto simp: image_iff)
    with assms have "distinct (map u_email (map (\<lambda>r. if u_id r = u_id new then new else r) (users s)))"
      by (intro rewrite_row_emails) (simp_all add: constraints_def)
    moreover from assms
    have "distinct (map u_id (map (\<lambda>r. if u_id r = u_id new then new else r) (users s)))"
      by (simp only: rewrite_row_ids) (simp add: constraints_def)
    ultimately show ?thesis
      using False assms new by (simp add: commit_user_def constraints_def del: map_map)
  qed
qed

lemma constraints_ex_empty: "constraints ex_empty"
  by (simp add: constraints_def)

section \<open>User management\<close>



text \<open>
  C6, as amended. Reading a user or the metadata of a PDF by an id within the signed
  64-bit range that no row of the table has fails with HTTP 404 and leaves the state as
  it was; reading by the id of a stored row returns that row (as the response model
  shows it) and leaves the state as it was. An id outside the range that no row has
  raises the driver's overflow error, and the state is left as it was.
\<close>

theorem read_by_id:
  "((\<forall>r \<in> set (users s). u_id r \<noteq> k) \<and> in_int64 k \<longrightarrow>
      read_user k s = (Inl (HTTPException 404 ''User not Found''), s)
      \<and> get_user k s = (Inl (HTTPException 404 ''User not Found''), s))
   \<and> ((\<forall>r \<in> set (users s). u_id r \<noteq> k) \<and> \<not> in_int64 k \<longrightarrow>
      read_user k s = (Inl OverflowError, s) \<and> get_user k s = (Inl OverflowError, s))
   \<and> (constraints s \<and> u \<in> set (users s) \<longrightarrow>
      read_user (u_id u) s = (Inr u, s)
      \<and> get_user (u_id u) s = (Inr (user_response u), s))
   \<and> ((\<forall>r \<in> set (pdfs s). p_id r \<noteq> k) \<and> in_int64 k \<longrightarrow>
      read_pdf k s = (Inl (HTTPException 404 ''PDF not Found''), s)
      \<and> get_pdf_metadata k s = (Inl (HTTPException 404 ''PDF not Found''), s))
   \<and> ((\<forall>r \<in> set (pdfs s). p_id r \<noteq> k) \<and> \<not> in_int64 k \<longrightarrow>
      read_pdf k s = (Inl OverflowError, s) \<and> get_pdf_metadata k s = (Inl OverflowError, s))
   \<and> (constraints s \<and> p \<in> set (pdfs s) \<longrightarrow>
      read_pdf (p_id p) s = (Inr p, s)
      \<and> get_pdf_metadata (p_id p) s = (Inr (pdf_response p), s))
   \<and> status_code (HTTPException 404 ''User not Found'') = 404
   \<and> status_code (HTTPException 404 ''PDF not Found'') = 404"
proof -
  have a: "read_user k s =
      (if in_int64 k then Inl (HTTPException 404 ''User not Found'') else Inl OverflowError, s)"
    if "\<forall>r \<in> set (users s). u_id r \<noteq> k"
    using first_by_id_absent [OF that] by (simp add: read_user_def)
  have b: "read_user (u_id u) s = (Inr u, s)" if "constraints s" "u \<in> set (users s)"
    using first_by_id_key [of u_id "users s" u] that by (simp add: read_user_def constraints_def)
  have c: "read_pdf k s =
      (if in_int64 k then Inl (HTTPException 404 ''PDF not Found'') else Inl OverflowError, s)"
    if "\<forall>r \<in> set (pdfs s). p_id r \<noteq> k"
    using first_by_id_absent [OF that] by (simp add: read_pdf_def)
  have d: "read_pdf (p_id p) s = (Inr p, s)" if "constraints s" "p \<in> set (pdfs s)"
    using first_by_id_key [of p_id "pdfs s" p] that by (simp add: read_pdf_def constraints_def)
  show ?thesis
    using a b c d by (simp add: get_user_def get_pdf_metadata_def respond_def)
qed

theorem read_by_id_witness:
  "3 \<notin> set (map u_id (users ex_store)) \<and> 3 \<notin> set (map p_id (pdfs ex_store))
   \<and> in_int64 3
   \<and> constraints ex_store \<and> ex_bob \<in> set (users ex_store) \<and> ex_pdf \<in> set (pdfs ex_store)
   \<and> get_user 3 ex_store = (Inl (HTTPException 404 ''User not Found''), ex_store)
   \<and> get_user 2 ex_store = (Inr \<lparr>ur_id = 2, ur_name = ''B'', ur_email = ''b@x.com''\<rparr>, ex_store)
   \<and> get_pdf_metadata 3 ex_store = (Inl (HTTPException 404 ''PDF not Found''), ex_store)
   \<and> get_pdf_metadata 1 ex_store = (Inr \<lparr>pr_id = 1, pr_fileName = ''paper.pdf''\<rparr>, ex_store)"
  using read_by_id [of ex_store 3 ex_bob ex_pdf]
  by (simp add: constraints_def in_int64_def user_response_def pdf_response_def)

text \<open>
  C6 as first stated fails for an id outside the signed 64-bit range: at \<open>2\<^sup>6\<^sup>3\<close>, which
  no row of the sample state has, both reads raise the overflow error (status 500), not
  HTTP 404.
\<close>

theorem read_by_id_overflow_counterexample:
  "9223372036854775808 \<notin> set (map u_id (users ex_store))
   \<and> 9223372036854775808 \<notin> set (map p_id (pdfs ex_store))
   \<and> get_user 9223372036854775808 ex_store = (Inl OverflowError, ex_store)
   \<and> get_pdf_metadata 9223372036854775808 ex_store = (Inl OverflowError, ex_store)
   \<and> status_code OverflowError = 500"
  by (simp add: get_user_def read_user_def get_pdf_metadata_def read_pdf_def first_by_id_def
      in_int64_def respond_def)

text \<open>
  C4, as amended. Deleting a user by an id within the signed 64-bit range that no row
  has fails with HTTP 404 and leaves the state as it was. Deleting by the id of a stored
  row removes that row and no other, and answers with the id, name and email the row
  had. An id outside the range that no row has raises the driver's overflow error, and
  the state is left as it was.
\<close>

theorem delete_user_by_id:
  "((\<forall>r \<in> set (users s). u_id r \<noteq> k) \<and> in_int64 k \<longrightarrow>
      delete_user k b s = (Inl (HTTPException 404 ''User not Found''), s)
      \<and> delete_user_route k b s = (Inl (HTTPException 404 ''User not Found''), s))
   \<and> ((\<forall>r \<in> set (users s). u_id r \<noteq> k) \<and> \<not> in_int64 k \<longrightarrow>
      delete_user k b s = (Inl OverflowError, s)
      \<and> delete_user_route k b s = (Inl OverflowError, s))
   \<and> (constraints s \<and> u \<in> set (users s) \<longrightarrow>
      delete_user_route (u_id u) b s = (Inr (user_response u), s\<lparr>users := remove1 u (users s)\<rparr>)
      \<and> u \<notin> set (remove1 u (users s))
      \<and> set (remove1 u (users s)) = set (users s) - {u}
      \<and> length (remove1 u (users s)) + 1 = length (users s))
   \<and> status_code (HTTPException 404 ''User not Found'') = 404"
proof -
  have a: "delete_user k b s =
      (if in_int64 k then Inl (HTTPException 404 ''User not Found'') else Inl OverflowError, s)"
    if "\<forall>r \<in> set (users s). u_id r \<noteq> k"
    using first_by_id_absent [OF that] by (simp add: delete_user_def)
  have b: "delete_user (u_id u) b s = (Inr u, s\<lparr>users := remove1 u (users s)\<rparr>)"
    if "constraints s" "u \<in> set (users s)"
    using first_by_id_key [of u_id "users s" u] filter_key_remove1 [of u_id "users s" u] that
    by (simp add: delete_user_def constraints_def)
  have c: "distinct (users s)" if "constraints s"
    using that by (auto simp: constraints_def distinct_map)
  have d: "length (remove1 u (users s)) + 1 = length (users s)" if "u \<in> set (users s)"
  proof -
    from that have "0 < length (users s)" by (cases "users s") auto
    with that show ?thesis by (simp add: length_remove1)
  qed
  show ?thesis
    using a b c d by (auto simp: delete_user_route_def respond_def)
qed

theorem delete_user_by_id_witness:
  "3 \<notin> set (map u_id (users ex_store)) \<and> in_int64 3
   \<and> constraints ex_store \<and> ex_bob \<in> set (users ex_store)
   \<and> delete_user_route 3 \<lparr>uu_name = None, uu_email = None, uu_password = None\<rparr> ex_store
       = (Inl (HTTPException 404 ''User not Found''), ex_store)
   \<and> delete_user_route 2 \<lparr>uu_name = None, uu_email = None, uu_password = None\<rparr> ex_store
       = (Inr \<lparr>ur_id = 2, ur_name = ''B'', ur_email = ''b@x.com''\<rparr>,
          ex_store\<lparr>users := [ex_alice]\<rparr>)"
  using delete_user_by_id [of ex_store 3 "\<lparr>uu_name = None, uu_email = None, uu_password = None\<rparr>" ex_bob]
  by (simp add: constraints_def in_int64_def user_response_def)

text \<open>
  C4 as first stated fails for an id outside the signed 64-bit range: at \<open>2\<^sup>6\<^sup>3\<close>, which
  no row of the sample state has, the delete raises the overflow error (status 500), not
  HTTP 404.
\<close>

theorem delete_user_overflow_counterexample:
  "9223372036854775808 \<notin> set (map u_id (users ex_store))
   \<and> delete_user_route 9223372036854775808 \<lparr>uu_name = None, uu_email = None, uu_password = None\<rparr>
        ex_store = (Inl OverflowError, ex_store)
   \<and> status_code OverflowError = 500"
  by (simp add: delete_user_route_def delete_user_def first_by_id_def in_int64_def respond_def)

text \<open>
  C9. The request body of the delete route is never read: two requests that differ only
  in the body produce the same response and the same state.
\<close>

theorem delete_user_ignores_body:
  "delete_user k b1 s = delete_user k b2 s
   \<and> delete_user_route k b1 s = delete_user_route k b2 s"
  by (simp add: delete_user_def delete_user_route_def)

theorem delete_user_ignores_body_witness:
  "delete_user_route 2 \<lparr>uu_name = None, uu_email = None, uu_password = None\<rparr> ex_store
   = delete_user_route 2 \<lparr>uu_name = Some ''Z'', uu_email = Some ''z@x.com'', uu_password = Some ''r''\<rparr> ex_store"
  using delete_user_ignores_body
    [of 2 "\<lparr>uu_name = None, uu_email = None, uu_password = None\<rparr>" ex_store
        "\<lparr>uu_name = Some ''Z'', uu_email = Some ''z@x.com'', uu_password = Some ''r''\<rparr>"]
  by (rule conjunct2)

section \<open>Summaries\<close>

text \<open>
  C5. Creating a summary returns a field the request does not have, which raises an
  attribute error the framework answers with status 500; getting a summary returns
  nothing, which the response model rejects. Neither depends on the state, and neither
  changes it: no summary row is written and no file is touched.
\<close>

theorem summary_endpoints_unimplemented:
  "create_summary summary_request s = (Inl (AttributeError ''summary''), s)
   \<and> post_summary summary_request s = (Inl (AttributeError ''summary''), s)
   \<and> fst (post_summary summary_request s) = fst (post_summary summary_request t)
   \<and> get_summary pdf_id s = (Inr None, s)
   \<and> get_summary_route pdf_id s = (Inl ResponseValidationError, s)
   \<and> fst (get_summary pdf_id s) = fst (get_summary pdf_id' t)"
  by (simp add: create_summary_def post_summary_def get_summary_def get_summary_route_def
      respond_def summary_response_def)

theorem summary_endpoints_unimplemented_witness:
  "post_summary \<lparr>sq_pdf_id = 1, sq_storage_id = ''f1''\<rparr> ex_store
     = (Inl (AttributeError ''summary''), ex_store)
   \<and> get_summary 1 ex_store = (Inr None, ex_store)
   \<and> get_summary_route 1 ex_store = (Inl ResponseValidationError, ex_store)"
  using summary_endpoints_unimplemented [of "\<lparr>sq_pdf_id = 1, sq_storage_id = ''f1''\<rparr>" ex_store ex_store 1 1]
  by simp

section \<open>PDF management\<close>

text \<open>
  C7. An upload succeeds whenever the storage directory exists, and the metadata row it
  persists has owning user id 1, the client's filename as file name, and the storage
  path \<^verbatim>\<open>storage/<file_id>.pdf\<close>, where \<open>file_id\<close> is the identifier drawn for
  this upload; the row is appended under an id no earlier row has, and the file at that
  path holds the uploaded bytes.
\<close>

theorem create_pdf_record:
  "(storage_dir s \<longrightarrow> (\<exists>pdf s'. create_pdf file_id file s = (Inr pdf, s')))
   \<and> (create_pdf file_id file s = (Inr pdf, s') \<longrightarrow>
        p_user_id pdf = 1
        \<and> p_fileName pdf = uf_filename file
        \<and> p_storage_path pdf = ''storage/'' @ file_id @ ''.pdf''
        \<and> pdfs s' = pdfs s @ [pdf]
        \<and> p_id pdf \<notin> set (map p_id (pdfs s))
        \<and> files s' (p_storage_path pdf) = Some (uf_file file)
        \<and> users s' = users s \<and> summaries s' = summaries s)"
  using next_rowid_fresh [of "map p_id (pdfs s)"]
  by (auto simp: create_pdf_def insert_pdf_def Let_def split: if_splits)

theorem create_pdf_record_witness:
  "storage_dir ex_store
   \<and> create_pdf ''f2'' \<lparr>uf_filename = ''notes.pdf'', uf_file = [1, 2, 3]\<rparr> ex_store
       = (Inr \<lparr>p_id = 2, p_user_id = 1, p_fileName = ''notes.pdf'', p_storage_path = ''storage/f2.pdf''\<rparr>,
          snd (create_pdf ''f2'' \<lparr>uf_filename = ''notes.pdf'', uf_file = [1, 2, 3]\<rparr> ex_store))
   \<and> pdfs (snd (create_pdf ''f2'' \<lparr>uf_filename = ''notes.pdf'', uf_file = [1, 2, 3]\<rparr> ex_store))
       = [ex_pdf, \<lparr>p_id = 2, p_user_id = 1, p_fileName = ''notes.pdf'', p_storage_path = ''storage/f2.pdf''\<rparr>]"
  using create_pdf_record
    [of ex_store "''f2''" "\<lparr>uf_filename = ''notes.pdf'', uf_file = [1, 2, 3]\<rparr>"
        "\<lparr>p_id = 2, p_user_id = 1, p_fileName = ''notes.pdf'', p_storage_path = ''storage/f2.pdf''\<rparr>"
        "snd (create_pdf ''f2'' \<lparr>uf_filename = ''notes.pdf'', uf_file = [1, 2, 3]\<rparr> ex_store)"]
  by (simp add: create_pdf_def insert_pdf_def next_rowid_def Let_def)

text \<open>
  C3. An upload succeeds whenever the storage directory exists, and downloading by the
  id an upload returned yields the uploaded bytes unchanged, with media type
  \<^verbatim>\<open>application/pdf\<close> and the client's filename.
\<close>

theorem upload_then_download:
  "(storage_dir s \<longrightarrow> (\<exists>resp s'. post_pdf_upload file_id file s = (Inr resp, s')))
   \<and> (post_pdf_upload file_id file s = (Inr resp, s') \<longrightarrow>
        get_pdf_download (pr_id resp) s'
          = (Inr \<lparr>d_content = uf_file file, d_media_type = ''application/pdf'',
                  d_filename = uf_filename file\<rparr>, s'))"
proof -
  let ?path = "''storage/'' @ file_id @ ''.pdf''"
  let ?pdf = "\<lparr>p_id = next_rowid (map p_id (pdfs s)), p_user_id = 1,
               p_fileName = uf_filename file, p_storage_path = ?path\<rparr>"
  let ?s' = "s\<lparr>files := (files s)(?path \<mapsto> uf_file file), pdfs := pdfs s @ [?pdf]\<rparr>"
  have up: "post_pdf_upload file_id file s = (Inr (pdf_response ?pdf), ?s')" if "storage_dir s"
    using that by (simp add: post_pdf_upload_def create_pdf_def insert_pdf_def respond_def Let_def)
  have fail: "fst (post_pdf_upload file_id file s) = Inl (FileNotFoundError ?path)"
    if "\<not> storage_dir s"
    using that by (simp add: post_pdf_upload_def create_pdf_def respond_def)
  have "\<forall>r \<in> set (pdfs s). p_id r \<noteq> p_id ?pdf"
    using next_rowid_greater [of _ "map p_id (pdfs s)"] by fastforce
  then have "first_by_id p_id (p_id ?pdf) (pdfs s @ [?pdf]) = Inr (Some ?pdf)"
    by (rule first_by_id_snoc_fresh)
  then have down: "get_pdf_download (p_id ?pdf) ?s'
      = (Inr \<lparr>d_content = uf_file file, d_media_type = ''application/pdf'',
              d_filename = uf_filename file\<rparr>, ?s')"
    by (simp add: get_pdf_download_def get_pdf_def respond_def send_file_def)
  have "get_pdf_download (pr_id resp) s'
          = (Inr \<lparr>d_content = uf_file file, d_media_type = ''application/pdf'',
                  d_filename = uf_filename file\<rparr>, s')"
    if r: "post_pdf_upload file_id file s = (Inr resp, s')"
  proof (cases "storage_dir s")
    case True
    from up [OF True] r have "resp = pdf_response ?pdf" "s' = ?s'" by simp_all
    with down show ?thesis by (simp add: pdf_response_def)
  next
    case False
    from fail [OF False] r show ?thesis by simp
  qed
  with up show ?thesis by blast
qed

theorem upload_then_download_witness:
  "storage_dir ex_store
   \<and> fst (post_pdf_upload ''f2'' \<lparr>uf_filename = ''notes.pdf'', uf_file = [1, 2, 3]\<rparr> ex_store)
       = Inr \<lparr>pr_id = 2, pr_fileName = ''notes.pdf''\<rparr>
   \<and> fst (get_pdf_download 2
        (snd (post_pdf_upload ''f2'' \<lparr>uf_filename = ''notes.pdf'', uf_file = [1, 2, 3]\<rparr> ex_store)))
       = Inr \<lparr>d_content = [1, 2, 3], d_media_type = ''application/pdf'', d_filename = ''notes.pdf''\<rparr>"
  using upload_then_download
    [of ex_store "''f2''" "\<lparr>uf_filename = ''notes.pdf'', uf_file = [1, 2, 3]\<rparr>"
        "\<lparr>pr_id = 2, pr_fileName = ''notes.pdf''\<rparr>"
        "snd (post_pdf_upload ''f2'' \<lparr>uf_filename = ''notes.pdf'', uf_file = [1, 2, 3]\<rparr> ex_store)"]
  by (simp add: post_pdf_upload_def create_pdf_def insert_pdf_def next_rowid_def respond_def
      pdf_response_def Let_def)

section \<open>Listing\<close>

text \<open>
  C8, as amended. Listing users or PDFs takes skip 0 and limit 10 for a parameter left
  out. For a skip and a limit within the signed 64-bit range: with a limit that is not
  negative it returns the rows after the first \<open>skip\<close> ones, at most \<open>limit\<close> of them;
  with a negative limit it returns every row after the first \<open>skip\<close> ones; no limit
  within the range is too large, one that reaches the end of the table returns all the
  rows after the skipped ones; on an empty table the answer is the empty list. A skip
  or a limit outside the range raises the driver's overflow error. The state is never
  changed.
\<close>

theorem list_pagination:
  "get_users None None s = get_users (Some 0) (Some 10) s
   \<and> get_users None (Some limit) s = get_users (Some 0) (Some limit) s
   \<and> get_users (Some skip) None s = get_users (Some skip) (Some 10) s
   \<and> (in_int64 skip \<and> in_int64 limit \<and> 0 \<le> limit \<longrightarrow>
        get_users (Some skip) (Some limit) s
          = (Inr (map user_response (take (nat limit) (drop (nat skip) (users s)))), s)
        \<and> int (length (take (nat limit) (drop (nat skip) (users s)))) \<le> limit)
   \<and> (in_int64 skip \<and> in_int64 limit \<and> limit < 0 \<longrightarrow>
        get_users (Some skip) (Some limit) s
          = (Inr (map user_response (drop (nat skip) (users s))), s))
   \<and> (in_int64 skip \<and> in_int64 limit \<and> 0 \<le> skip \<and> int (length (users s)) \<le> skip + limit \<longrightarrow>
        get_users (Some skip) (Some limit) s
          = (Inr (map user_response (drop (nat skip) (users s))), s))
   \<and> (in_int64 skip \<and> in_int64 limit \<and> users s = [] \<longrightarrow>
        get_users (Some skip) (Some limit) s = (Inr [], s))
   \<and> (users s = [] \<longrightarrow> get_users None None s = (Inr [], s))
   \<and> (\<not> in_int64 skip \<or> \<not> in_int64 limit \<longrightarrow>
        get_users (Some skip) (Some limit) s = (Inl OverflowError, s))
   \<and> get_pdfs None None s = get_pdfs (Some 0) (Some 10) s
   \<and> get_pdfs None (Some limit) s = get_pdfs (Some 0) (Some limit) s
   \<and> get_pdfs (Some skip) None s = get_pdfs (Some skip) (Some 10) s
   \<and> (in_int64 skip \<and> in_int64 limit \<and> 0 \<le> limit \<longrightarrow>
        get_pdfs (Some skip) (Some limit) s
          = (Inr (map pdf_response (take (nat limit) (drop (nat skip) (pdfs s)))), s)
        \<and> int (length (take (nat limit) (drop (nat skip) (pdfs s)))) \<le> limit)
   \<and> (in_int64 skip \<and> in_int64 limit \<and> limit < 0 \<longrightarrow>
        get_pdfs (Some skip) (Some limit) s
          = (Inr (map pdf_response (drop (nat skip) (pdfs s))), s))
   \<and> (in_int64 skip \<and> in_int64 limit \<and> 0 \<le> skip \<and> int (length (pdfs s)) \<le> skip + limit \<longrightarrow>
        get_pdfs (Some skip) (Some limit) s
          = (Inr (map pdf_response (drop (nat skip) (pdfs s))), s))
   \<and> (in_int64 skip \<and> in_int64 limit \<and> pdfs s = [] \<longrightarrow>
        get_pdfs (Some skip) (Some limit) s = (Inr [], s))
   \<and> (pdfs s = [] \<longrightarrow> get_pdfs None None s = (Inr [], s))
   \<and> (\<not> in_int64 skip \<or> \<not> in_int64 limit \<longrightarrow>
        get_pdfs (Some skip) (Some limit) s = (Inl OverflowError, s))"
proof -
  have u1: "get_users None None s = get_users (Some 0) (Some 10) s"
    and u2: "get_users None (Some limit) s = get_users (Some 0) (Some limit) s"
    and u3: "get_users (Some skip) None s = get_users (Some skip) (Some 10) s"
    by (simp_all add: get_users_eq)
  have u4: "get_users (Some skip) (Some limit) s
          = (Inr (map user_response (take (nat limit) (drop (nat skip) (users s)))), s)
        \<and> int (length (take (nat limit) (drop (nat skip) (users s)))) \<le> limit"
    if "in_int64 skip \<and> in_int64 limit \<and> 0 \<le> limit"
    using that by (auto simp: get_users_eq offset_limit_nonneg)
  have u5: "get_users (Some skip) (Some limit) s
          = (Inr (map user_response (drop (nat skip) (users s))), s)"
    if "in_int64 skip \<and> in_int64 limit \<and> limit < 0"
    using that by (simp add: get_users_eq offset_limit_negative)
  have u6: "get_users (Some skip) (Some limit) s
          = (Inr (map user_response (drop (nat skip) (users s))), s)"
    if "in_int64 skip \<and> in_int64 limit \<and> 0 \<le> skip \<and> int (length (users s)) \<le> skip + limit"
    using that by (simp add: get_users_eq offset_limit_covers)
  have u7: "get_users (Some skip) (Some limit) s = (Inr [], s)"
    if "in_int64 skip \<and> in_int64 limit \<and> users s = []"
    using that by (simp add: get_users_eq offset_limit_Nil)
  have u8: "get_users None None s = (Inr [], s)" if "users s = []"
  proof -
    have "in_int64 0" "in_int64 10" by (simp_all add: in_int64_def)
    with that show ?thesis by (simp add: get_users_eq offset_limit_Nil)
  qed
  have u9: "get_users (Some skip) (Some limit) s = (Inl OverflowError, s)"
    if "\<not> in_int64 skip \<or> \<not> in_int64 limit"
    using that by (simp add: get_users_eq offset_limit_out_of_range)
  have p1: "get_pdfs None None s = get_pdfs (Some 0) (Some 10) s"
    and p2: "get_pdfs None (Some limit) s = get_pdfs (Some 0) (Some limit) s"
    and p3: "get_pdfs (Some skip) None s = get_pdfs (Some skip) (Some 10) s"
    by (simp_all add: get_pdfs_eq)
  have p4: "get_pdfs (Some skip) (Some limit) s
          = (Inr (map pdf_response (take (nat limit) (drop (nat skip) (pdfs s)))), s)
        \<and> int (length (take (nat limit) (drop (nat skip) (pdfs s)))) \<le> limit"
    if "in_int64 skip \<and> in_int64 limit \<and> 0 \<le> limit"
    using that by (auto simp: get_pdfs_eq offset_limit_nonneg)
  have p5: "get_pdfs (Some skip) (Some limit) s
          = (Inr (map pdf_response (drop (nat skip) (pdfs s))), s)"
    if "in_int64 skip \<and> in_int64 limit \<and> limit < 0"
    using that by (simp add: get_pdfs_eq offset_limit_negative)
  have p6: "get_pdfs (Some skip) (Some limit) s
          = (Inr (map pdf_response (drop (nat skip) (pdfs s))), s)"
    if "in_int64 skip \<and> in_int64 limit \<and> 0 \<le> skip \<and> int (length (pdfs s)) \<le> skip + limit"
    using that by (simp add: get_pdfs_eq offset_limit_covers)
  have p7: "get_pdfs (Some skip) (Some limit) s = (Inr [], s)"
    if "in_int64 skip \<and> in_int64 limit \<and> pdfs s = []"
    using that by (simp add: get_pdfs_eq offset_limit_Nil)
  have p8: "get_pdfs None None s = (Inr [], s)" if "pdfs s = []"
  proof -
    have "in_int64 0" "in_int64 10" by (simp_all add: in_int64_def)
    with that show ?thesis by (simp add: get_pdfs_eq offset_limit_Nil)
  qed
  have p9: "get_pdfs (Some skip) (Some limit) s = (Inl OverflowError, s)"
    if "\<not> in_int64 skip \<or> \<not> in_int64 limit"
    using that by (simp add: get_pdfs_eq offset_limit_out_of_range)
  from u1 u2 u3 u4 u5 u6 u7 u8 u9 p1 p2 p3 p4 p5 p6 p7 p8 p9 show ?thesis
    by blast
qed

theorem list_pagination_witness:
  "in_int64 0 \<and> in_int64 1 \<and> in_int64 10 \<and> in_int64 1000000 \<and> in_int64 (- 1)
   \<and> \<not> in_int64 9223372036854775808
   \<and> get_users None None ex_store
     = (Inr [\<lparr>ur_id = 1, ur_name = ''A'', ur_email = ''a@x.com''\<rparr>,
             \<lparr>ur_id = 2, ur_name = ''B'', ur_email = ''b@x.com''\<rparr>], ex_store)
   \<and> get_users (Some 1) (Some 1) ex_store
     = (Inr [\<lparr>ur_id = 2, ur_name = ''B'', ur_email = ''b@x.com''\<rparr>], ex_store)
   \<and> get_users (Some 0) (Some 1000000) ex_store
     = (Inr [\<lparr>ur_id = 1, ur_name = ''A'', ur_email = ''a@x.com''\<rparr>,
             \<lparr>ur_id = 2, ur_name = ''B'', ur_email = ''b@x.com''\<rparr>], ex_store)
   \<and> get_users (Some 1) (Some (- 1)) ex_store
     = (Inr [\<lparr>ur_id = 2, ur_name = ''B'', ur_email = ''b@x.com''\<rparr>], ex_store)
   \<and> get_users (Some 0) (Some 9223372036854775808) ex_store = (Inl OverflowError, ex_store)
   \<and> get_pdfs (Some 0) (Some 1) ex_store
     = (Inr [\<lparr>pr_id = 1, pr_fileName = ''paper.pdf''\<rparr>], ex_store)
   \<and> get_users None None ex_empty = (Inr [], ex_empty)
   \<and> get_pdfs None None ex_empty = (Inr [], ex_empty)"
  using list_pagination [where s = ex_store and skip = 1 and limit = 1]
    list_pagination [where s = ex_store and skip = 0 and limit = 1000000]
    list_pagination [where s = ex_store and skip = 1 and limit = "- 1"]
    list_pagination [where s = ex_store and skip = 0 and limit = 1]
    list_pagination [where s = ex_store and skip = 0 and limit = 10]
    list_pagination [where s = ex_store and skip = 0 and limit = 9223372036854775808]
    list_pagination [where s = ex_empty and skip = 0 and limit = 10]
  by (simp add: in_int64_def user_response_def pdf_response_def)

text \<open>
  C8 as first stated fails for a negative limit: with limit \<open>-1\<close> the listing returns
  both users of the sample state, which is more than \<open>limit\<close> records. It fails also for
  a limit outside the signed 64-bit range: with limit \<open>2\<^sup>6\<^sup>3\<close> the listing of an empty
  table is the overflow error (status 500), not the empty list.
\<close>

theorem list_negative_limit_counterexample:
  "get_users (Some 0) (Some (- 1)) ex_store
     = (Inr [\<lparr>ur_id = 1, ur_name = ''A'', ur_email = ''a@x.com''\<rparr>,
             \<lparr>ur_id = 2, ur_name = ''B'', ur_email = ''b@x.com''\<rparr>], ex_store)
   \<and> \<not> int (length [\<lparr>ur_id = 1, ur_name = ''A'', ur_email = ''a@x.com''\<rparr>,
             \<lparr>ur_id = 2, ur_name = ''B'', ur_email = ''b@x.com''\<rparr>]) \<le> - 1
   \<and> get_users (Some 0) (Some 9223372036854775808) ex_empty = (Inl OverflowError, ex_empty)
   \<and> get_pdfs (Some 0) (Some 9223372036854775808) ex_empty = (Inl OverflowError, ex_empty)
   \<and> status_code OverflowError = 500"
  by (simp add: get_users_def read_users_def get_pdfs_def read_pdfs_def respond_def
      offset_limit_def in_int64_def user_response_def)

section \<open>Updating a user\<close>




section \<open>Passwords in responses\<close>

text \<open>
  C10. The user response holds the id, the name and the email of a row and nothing of
  its password. So for two states whose user tables differ in passwords only, getting
  a user by id, listing users and deleting a user answer the same.
\<close>

theorem responses_hide_password:
  "user_response (r\<lparr>u_password := p\<rparr>) = user_response r
   \<and> (same_except_passwords s t \<longrightarrow>
        fst (get_user k s) = fst (get_user k t)
        \<and> fst (get_users skip limit s) = fst (get_users skip limit t)
        \<and> fst (delete_user_route k b s) = fst (delete_user_route k b t))"
proof -
  have "fst (get_user k s) = fst (get_user k t)
        \<and> fst (get_users skip limit s) = fst (get_users skip limit t)
        \<and> fst (delete_user_route k b s) = fst (delete_user_route k b t)"
    if "same_except_passwords s t"
  proof -
    from that have m: "map user_response (users s) = map user_response (users t)"
      by (rule same_except_passwords_responses)
    from find_user_response [OF m]
    have "fst (get_user k s) = fst (get_user k t)"
      and "fst (delete_user_route k b s) = fst (delete_user_route k b t)"
      by (simp_all only: get_user_eq delete_user_route_eq)
    moreover from m have "fst (get_users skip limit s) = fst (get_users skip limit t)"
      by (simp add: get_users_eq map_offset_limit)
    ultimately show ?thesis by simp
  qed
  then show ?thesis
    by (simp add: user_response_def)
qed

theorem responses_hide_password_witness:
  "same_except_passwords ex_store ex_store_other_passwords
   \<and> users ex_store \<noteq> users ex_store_other_passwords
   \<and> fst (get_user 2 ex_store_other_passwords)
       = Inr \<lparr>ur_id = 2, ur_name = ''B'', ur_email = ''b@x.com''\<rparr>
   \<and> fst (get_user 2 ex_store) = fst (get_user 2 ex_store_other_passwords)
   \<and> fst (get_users None None ex_store) = fst (get_users None None ex_store_other_passwords)
   \<and> fst (delete_user_route 2 \<lparr>uu_name = None, uu_email = None, uu_password = None\<rparr> ex_store)
       = fst (delete_user_route 2 \<lparr>uu_name = None, uu_email = None, uu_password = None\<rparr>
               ex_store_other_passwords)"
  using responses_hide_password
    [where r = ex_alice and p = "''x1''" and s = ex_store and t = ex_store_other_passwords
       and k = 2 and skip = None and limit = None
       and b = "\<lparr>uu_name = None, uu_email = None, uu_password = None\<rparr>"]
  by (simp add: same_except_passwords_def get_user_def read_user_def first_by_id_def
      respond_def user_response_def)

end
